theory Spec2Isabelle
  imports Main "HOL-Library.Product_Lexorder" "HOL-Library.Multiset"
begin

section \<open>Board geometry\<close>

subsection \<open>Helpers of the single-strategy tracker (keno\_tracker.py)\<close>

text \<open>
  Python's \<open>//\<close> and \<open>%\<close> on integers are floor division and the matching
  non-negative remainder for a positive divisor, which is \<open>div\<close> and \<open>mod\<close> on \<open>int\<close>.
\<close>

definition get_row :: "int \<Rightarrow> int" where
  "get_row num = (num - 1) div 10 + 1"

definition get_col :: "int \<Rightarrow> int" where
  "get_col num = (num - 1) mod 10 + 1"

definition get_neighbors :: "int \<Rightarrow> int set" where
  "get_neighbors num =
     (let row = get_row num; col = get_col num
      in set (concat (map (\<lambda>r. concat (map (\<lambda>c.
             (let neighbor = (r - 1) * 10 + c
              in if neighbor \<noteq> num \<and> 1 \<le> neighbor \<and> neighbor \<le> 80 then [neighbor] else []))
           [max 1 (col - 1) .. min 10 (col + 1)]))
         [max 1 (row - 1) .. min 8 (row + 1)])))"

subsection \<open>Helpers of the multi-strategy tracker (keno\_multi\_strategy.py)\<close>

definition ROWS :: int where "ROWS = 8"
definition COLS :: int where "COLS = 10"

definition rc :: "int \<Rightarrow> int \<times> int" where
  "rc n = ((n - 1) div COLS, (n - 1) mod COLS)"

definition to_num :: "int \<Rightarrow> int \<Rightarrow> int" where
  "to_num r c = r * COLS + c + 1"

text \<open>The multi-strategy module reuses the names \<open>get_row\<close>, \<open>get_col\<close> and
  \<open>get_neighbors\<close> for its own helpers; they carry the suffix \<open>_ms\<close> here.\<close>

definition get_row_ms :: "int \<Rightarrow> int set" where
  "get_row_ms n = set (map (\<lambda>c. to_num (fst (rc n)) c) [0 .. COLS - 1])"

definition get_col_ms :: "int \<Rightarrow> int set" where
  "get_col_ms n = set (map (\<lambda>r. to_num r (snd (rc n))) [0 .. ROWS - 1])"

definition get_neighbors_ms :: "int \<Rightarrow> int set" where
  "get_neighbors_ms n =
     (case rc n of (r, c) \<Rightarrow>
        set (concat (map (\<lambda>dr. concat (map (\<lambda>dc.
               if (dr \<noteq> 0 \<or> dc \<noteq> 0) \<and> 0 \<le> r + dr \<and> r + dr < ROWS
                  \<and> 0 \<le> c + dc \<and> c + dc < COLS
               then [to_num (r + dr) (c + dc)] else [])
             [-1, 0, 1]))
           [-1, 0, 1])))"

definition mirror_num :: "int \<Rightarrow> int" where
  "mirror_num n = 81 - n"


section \<open>Python values shared by the modules\<close>

datatype py_error = AttributeError string | IndexError | KeyError string
  | FileNotFoundError string

text \<open>A \<open>collections.Counter\<close> built from an iterable: the keys that occur, with their
  number of occurrences; \<open>dict.get(key, default)\<close> reads it.\<close>

definition Counter :: "'a list \<Rightarrow> ('a \<rightharpoonup> int)" where
  "Counter xs = (\<lambda>k. if k \<in> set xs then Some (int (count_list xs k)) else None)"

definition dict_get :: "('k \<rightharpoonup> 'v) \<Rightarrow> 'k \<Rightarrow> 'v \<Rightarrow> 'v" where
  "dict_get m k d = (case m k of None \<Rightarrow> d | Some v \<Rightarrow> v)"

text \<open>\<open>str(n)\<close> for an integer, as used by the f-string \<open>f"{game_id}_{date}"\<close>.\<close>

fun str_nat :: "nat \<Rightarrow> string" where
  "str_nat n = (if n < 10 then [''0123456789'' ! n]
                else str_nat (n div 10) @ [''0123456789'' ! (n mod 10)])"

definition str_int :: "int \<Rightarrow> string" where
  "str_int i = (if i < 0 then CHR ''-'' # str_nat (nat (- i)) else str_nat (nat i))"

definition make_unique_key :: "int \<Rightarrow> string \<Rightarrow> string" where
  "make_unique_key game_id date = str_int game_id @ ''_'' @ date"

text \<open>\<open>min(xs, key=f)\<close> keeps the first element whose key is minimal.\<close>

fun min_by :: "('a \<Rightarrow> 'k::linorder) \<Rightarrow> 'a \<Rightarrow> 'a list \<Rightarrow> 'a" where
  "min_by f m [] = m"
| "min_by f m (x # xs) = min_by f (if f x < f m then x else m) xs"

section \<open>Single-strategy tracker (keno\_tracker.py)\<close>

record game =
  game_id :: int
  date :: string
  time :: string
  numbers :: "int list"
  unique_key :: string

record prediction =
  p_game_id :: int
  p_date :: string
  playable_numbers :: "int list"
  removed_count :: int

record score =
  s_game_id :: int
  s_hits :: int
  s_playable_count :: int

text \<open>The dictionary that \<open>score_prediction\<close> returns.\<close>

record score_result =
  r_game_id :: int
  hits :: int
  playable_count :: int
  hit_numbers :: "int list"
  predicted :: "int list"
  actual :: "int list"

text \<open>A CSV file is absent (\<open>None\<close>) or holds its rows, each a list of cells.\<close>

datatype cell = I int | S string

type_synonym csv_file = "cell list list option"

record tracker =
  games :: "game list"
  predictions :: "prediction list"
  scores :: "score list"
  games_csv :: csv_file
  predictions_csv :: csv_file
  scores_csv :: csv_file

definition games_header :: "cell list" where
  "games_header = [S ''game_id'', S ''date'', S ''time''] @
     map (\<lambda>i. S (''number_'' @ str_int i)) [1 .. 20]"

text \<open>\<open>add_game\<close>: the \<open>for\<close> loop returns \<open>False\<close> at the first draw with the same key;
  otherwise the draw is appended, the list is re-sorted by \<open>game_id\<close> descending
  (Python's sort is stable, also with \<open>reverse=True\<close>) and one row is appended to the
  CSV file, after the header when the file did not exist.\<close>

definition add_game :: "tracker \<Rightarrow> int \<Rightarrow> string \<Rightarrow> string \<Rightarrow> int list \<Rightarrow> tracker \<times> bool" where
  "add_game t gid d tm nums =
     (let key = make_unique_key gid d
      in if list_ex (\<lambda>g. unique_key g = key) (games t) then (t, False)
         else
           (let appended = games t @
                  [\<lparr>game_id = gid, date = d, time = tm, numbers = nums, unique_key = key\<rparr>];
                resorted = sort_key (\<lambda>g. - game_id g) appended;
                row = [I gid, S d, S tm] @ map I nums;
                file = (case games_csv t of
                          None \<Rightarrow> [games_header, row]
                        | Some rows \<Rightarrow> rows @ [row])
            in (t\<lparr>games := resorted, games_csv := Some file\<rparr>, True)))"

text \<open>Hit counters. Positions are 1-based (1 = most recent draw); every caller passes
  positions from 1 upwards.\<close>

definition calculate_hits :: "game list \<Rightarrow> int \<Rightarrow> nat \<Rightarrow> int" where
  "calculate_hits gs num last_n =
     int (length (filter (\<lambda>i. num \<in> set (numbers (gs ! i))) [0 ..< min last_n (length gs)]))"

definition hit_in_specific_games :: "game list \<Rightarrow> int \<Rightarrow> nat list \<Rightarrow> bool" where
  "hit_in_specific_games gs num positions =
     list_ex (\<lambda>pos. pos \<le> length gs \<and> num \<in> set (numbers (gs ! (pos - 1)))) positions"

definition hit_count_in_specific_games :: "game list \<Rightarrow> int \<Rightarrow> nat list \<Rightarrow> int" where
  "hit_count_in_specific_games gs num positions =
     int (length (filter (\<lambda>pos. pos \<le> length gs \<and> num \<in> set (numbers (gs ! (pos - 1)))) positions))"

definition has_touching_neighbor_hit :: "game list \<Rightarrow> int \<Rightarrow> nat \<Rightarrow> bool" where
  "has_touching_neighbor_hit gs num game_position =
     (if game_position > length gs then False
      else (let drawn = set (numbers (gs ! (game_position - 1)));
                neighbors = get_neighbors num
            in neighbors \<inter> drawn \<noteq> {}))"

definition get_row_col_hits :: "game list \<Rightarrow> nat \<Rightarrow> (int \<rightharpoonup> int) \<times> (int \<rightharpoonup> int)" where
  "get_row_col_hits gs game_position =
     (if game_position > length gs then (Map.empty, Map.empty)
      else (let drawn = numbers (gs ! (game_position - 1))
            in (Counter (map get_row drawn), Counter (map get_col drawn))))"

definition is_row_col_hot :: "game list \<Rightarrow> int \<Rightarrow> nat \<Rightarrow> int \<Rightarrow> bool" where
  "is_row_col_hot gs num last_n threshold =
     (let num_row = get_row num; num_col = get_col num
      in list_ex (\<lambda>i. case get_row_col_hits gs (i + 1) of (row_hits, col_hits) \<Rightarrow>
                    dict_get row_hits num_row 0 \<ge> threshold
                    \<or> dict_get col_hits num_col 0 \<ge> threshold)
           [0 ..< min last_n (length gs)])"

record number_data =
  number :: int
  hits_last_10 :: int
  hits_last_50 :: int
  remove :: bool
  reasons :: "string list"

text \<open>The body of the loop over \<open>range(1, 81)\<close> in \<open>get_playable_numbers\<close>.\<close>

definition number_entry :: "game list \<Rightarrow> int \<Rightarrow> number_data" where
  "number_entry gs num =
     (let h10 = calculate_hits gs num 10;
          h50 = (if length gs \<ge> 50 then calculate_hits gs num 50
                 else calculate_hits gs num (length gs));
          remove_reasons =
            (if hit_in_specific_games gs num [1, 2] then [''hit_last_2''] else []) @
            (if hit_count_in_specific_games gs num [1, 2, 3] \<ge> 2 then [''hit_2_of_3''] else []) @
            (if hit_count_in_specific_games gs num [1 ..< 9] \<ge> 4 then [''hit_4_of_8''] else []) @
            (if h10 \<ge> 6 then [''hit_6_of_10''] else []) @
            (if hit_in_specific_games gs num [1, 3, 4] then [''pattern_1_3_4''] else []) @
            (if is_row_col_hot gs num 3 4 then [''row_col_hot''] else []) @
            (if \<not> has_touching_neighbor_hit gs num 1 then [''no_neighbor_hit''] else [])
      in \<lparr>number = num, hits_last_10 = h10, hits_last_50 = h50,
          remove = (length remove_reasons > 0), reasons = remove_reasons\<rparr>)"

definition get_playable_numbers :: "game list \<Rightarrow> int list" where
  "get_playable_numbers gs =
     (if gs = [] then [1 .. 80]
      else (let numbers_data = map (number_entry gs) [1 .. 80];
                playable = filter (\<lambda>n. \<not> remove n) numbers_data;
                ranked = sort_key (\<lambda>x. (- hits_last_50 x, hits_last_10 x)) playable
            in map number ranked))"

text \<open>\<open>score_prediction\<close>: both lookups are \<open>for\<close> loops that stop at the first match,
  which is \<open>find\<close>. A prediction or draw dictionary always has keys, so the tests
  \<open>not prediction\<close> and \<open>not game\<close> hold exactly when nothing was found.
  \<open>_save_scores\<close> rewrites the whole scores file.\<close>

definition save_scores :: "tracker \<Rightarrow> tracker" where
  "save_scores t =
     t\<lparr>scores_csv := Some (if scores t = [] then []
          else [S ''game_id'', S ''hits'', S ''playable_count''] #
               map (\<lambda>sc. [I (s_game_id sc), I (s_hits sc), I (s_playable_count sc)]) (scores t))\<rparr>"

definition score_prediction :: "tracker \<Rightarrow> int \<Rightarrow> tracker \<times> score_result option" where
  "score_prediction t gid =
     (case find (\<lambda>p. p_game_id p = gid) (predictions t) of
        None \<Rightarrow> (t, None)
      | Some prediction \<Rightarrow>
          (case find (\<lambda>g. game_id g = gid) (games t) of
             None \<Rightarrow> (t, None)
           | Some game \<Rightarrow>
               (let predicted_set = set (playable_numbers prediction);
                    actual_set = set (numbers game);
                    h = int (card (predicted_set \<inter> actual_set));
                    hit_nums = sorted_list_of_set (predicted_set \<inter> actual_set);
                    result = \<lparr>r_game_id = gid, hits = h,
                               playable_count = int (length (playable_numbers prediction)),
                               hit_numbers = hit_nums,
                               predicted = playable_numbers prediction,
                               actual = numbers game\<rparr>;
                    t' = t\<lparr>scores := scores t @
                            [\<lparr>s_game_id = gid, s_hits = h,
                              s_playable_count = int (length (playable_numbers prediction))\<rparr>]\<rparr>
                in (save_scores t', Some result))))"

section \<open>Multi-strategy tracker (keno\_multi\_strategy.py)\<close>

text \<open>A draw as \<open>_load_games\<close> of this module builds it: \<open>numbers\<close> is the set of the
  twenty columns, \<open>numbers_list\<close> keeps their order.\<close>

record game_ms =
  game_id_ms :: int
  date_ms :: string
  time_ms :: string
  numbers_ms :: "int set"
  numbers_list :: "int list"

definition load_game_ms :: "int \<Rightarrow> string \<Rightarrow> string \<Rightarrow> int list \<Rightarrow> game_ms" where
  "load_game_ms gid d tm nums =
     \<lparr>game_id_ms = gid, date_ms = d, time_ms = tm, numbers_ms = set nums, numbers_list = nums\<rparr>"

subsection \<open>Strategy 1: elimination\<close>

definition hits_in_n :: "game_ms list \<Rightarrow> int \<Rightarrow> nat \<Rightarrow> int" where
  "hits_in_n gs num n =
     int (length (filter (\<lambda>i. num \<in> numbers_ms (gs ! i)) [0 ..< min n (length gs)]))"

definition hit_in_positions :: "game_ms list \<Rightarrow> int \<Rightarrow> nat list \<Rightarrow> bool" where
  "hit_in_positions gs num positions =
     list_ex (\<lambda>pos. num \<in> numbers_ms (gs ! (pos - 1)))
       (filter (\<lambda>pos. pos \<le> length gs) positions)"

definition has_neighbor_hit :: "game_ms list \<Rightarrow> int \<Rightarrow> nat \<Rightarrow> bool" where
  "has_neighbor_hit gs num position =
     (if position > length gs then False
      else (let drawn = numbers_ms (gs ! (position - 1))
            in get_neighbors_ms num \<inter> drawn \<noteq> {}))"

definition is_row_col_hot_ms :: "game_ms list \<Rightarrow> int \<Rightarrow> nat \<Rightarrow> int \<Rightarrow> bool" where
  "is_row_col_hot_ms gs num last_n threshold =
     (case rc num of (num_row, num_col) \<Rightarrow>
        list_ex (\<lambda>i. let drawn = numbers_ms (gs ! i)
                    in int (card (Set.filter (\<lambda>n. fst (rc n) = num_row) drawn)) \<ge> threshold
                       \<or> int (card (Set.filter (\<lambda>n. snd (rc n) = num_col) drawn)) \<ge> threshold)
          [0 ..< min last_n (length gs)])"

text \<open>The body of the loop over \<open>range(1, 81)\<close>: each rule that fires leaves the loop
  body by \<open>continue\<close>; a number that passes every test reaches \<open>remove.add(num)\<close>.\<close>

definition elimination_step :: "game_ms list \<Rightarrow> int \<Rightarrow> int set \<Rightarrow> int set" where
  "elimination_step gs num remove_set =
     (if hit_in_positions gs num [1, 2] then remove_set
      else if int (length (filter (\<lambda>i. num \<in> numbers_ms (gs ! i)) [0 ..< min 3 (length gs)])) \<ge> 2
        then remove_set
      else if hits_in_n gs num 8 \<ge> 4 then remove_set
      else if hits_in_n gs num 10 \<ge> 6 then remove_set
      else if hit_in_positions gs num [1, 3, 4] then remove_set
      else if is_row_col_hot_ms gs num 3 4 then remove_set
      else if \<not> has_neighbor_hit gs num 1 then remove_set
      else insert num remove_set)"

text \<open>The numbers that reach \<open>remove.add(num)\<close>: none of the first six tests fires
  and a neighbour hit in the last draw.\<close>

definition passes_all_rules :: "game_ms list \<Rightarrow> int \<Rightarrow> bool" where
  "passes_all_rules gs num =
     (\<not> hit_in_positions gs num [1, 2]
      \<and> \<not> int (length (filter (\<lambda>i. num \<in> numbers_ms (gs ! i)) [0 ..< min 3 (length gs)])) \<ge> 2
      \<and> \<not> hits_in_n gs num 8 \<ge> 4
      \<and> \<not> hits_in_n gs num 10 \<ge> 6
      \<and> \<not> hit_in_positions gs num [1, 3, 4]
      \<and> \<not> is_row_col_hot_ms gs num 3 4
      \<and> has_neighbor_hit gs num 1)"

definition strategy_elimination :: "game_ms list \<Rightarrow> int list" where
  "strategy_elimination gs =
     (if gs = [] then [1 .. 80]
      else (let remove_set = fold (elimination_step gs) [1 .. 80] {};
                remaining = filter (\<lambda>n. n \<notin> remove_set) [1 .. 80];
                ranked = sort_key (\<lambda>n. (- hits_in_n gs n 50, hits_in_n gs n 10)) remaining
            in take 20 ranked))"

subsection \<open>Strategy 6: cluster heat map\<close>

text \<open>\<open>heat_scores\<close> is a dictionary filled for 1 to 80 in order; its items keep that
  order, and \<open>sorted\<close> with key \<open>-heat\<close> is a stable descending sort.\<close>

definition heat_scores :: "game_ms list \<Rightarrow> (int \<times> int) list" where
  "heat_scores gs =
     map (\<lambda>num. (num, sum_list (map (\<lambda>g. int (card (get_neighbors_ms num \<inter> numbers_ms g)))
                                  (take 3 gs))))
       [1 .. 80]"

definition sorted_heat :: "game_ms list \<Rightarrow> (int \<times> int) list" where
  "sorted_heat gs = sort_key (\<lambda>x. - snd x) (heat_scores gs)"

text \<open>\<open>sorted_heat[20][1] if len(sorted_heat) >= 20 else 0\<close>: the read at index 20
  raises \<open>IndexError\<close> on a list of exactly 20 items.\<close>

definition top_threshold :: "(int \<times> int) list \<Rightarrow> py_error + int" where
  "top_threshold sh =
     (if length sh \<ge> 20 then (if 20 < length sh then Inr (snd (sh ! 20)) else Inl IndexError)
      else Inr 0)"

definition strategy_cluster_heat :: "game_ms list \<Rightarrow> py_error + int list" where
  "strategy_cluster_heat gs =
     (if gs = [] then Inr [1 .. 80]
      else (case top_threshold (sorted_heat gs) of
              Inl e \<Rightarrow> Inl e
            | Inr thr \<Rightarrow>
                (let hot_numbers = map fst (filter (\<lambda>(n, heat). heat \<ge> thr) (sorted_heat gs))
                 in Inr (take 20 hot_numbers))))"

text \<open>
  The cluster strategy in the words of the specification, written without the code's
  helpers. The board is row-major, number 1 at row 1, column 1 and number 80 at row 8,
  column 10. The neighbours of a number are the up to eight numbers of its 3 by 3
  neighbourhood: edges clipped, diagonals included, the number itself excluded. A
  number's score is the sum, over the last three draws (the first three of the history,
  which is most recent first), of its neighbours that were drawn. The threshold is the
  20th-highest of the 80 scores; every number at or above it is kept, hottest first,
  and the list is cut to 20.
\<close>

definition board_number :: "int \<Rightarrow> int \<Rightarrow> int" where
  "board_number r c = (r - 1) * 10 + c"

definition moore_neighborhood :: "int \<Rightarrow> int set" where
  "moore_neighborhood n =
     set [board_number r' c'. r \<leftarrow> [1 .. 8], c \<leftarrow> [1 .. 10], board_number r c = n,
            r' \<leftarrow> [r - 1 .. r + 1], c' \<leftarrow> [c - 1 .. c + 1],
            1 \<le> r' \<and> r' \<le> 8 \<and> 1 \<le> c' \<and> c' \<le> 10 \<and> (r', c') \<noteq> (r, c)]"

definition neighbor_hit_score :: "game_ms list \<Rightarrow> int \<Rightarrow> int" where
  "neighbor_hit_score gs n =
     sum_list (map (\<lambda>g. int (card (moore_neighborhood n \<inter> numbers_ms g))) (take 3 gs))"

definition nth_highest :: "nat \<Rightarrow> int list \<Rightarrow> int" where
  "nth_highest k xs = rev (sort xs) ! (k - 1)"

definition cluster_spec :: "game_ms list \<Rightarrow> int list" where
  "cluster_spec gs =
     (let thr = nth_highest 20 (map (neighbor_hit_score gs) [1 .. 80]);
          hottest_first = sort_key (\<lambda>n. - neighbor_hit_score gs n) [1 .. 80]
      in take 20 (filter (\<lambda>n. neighbor_hit_score gs n \<ge> thr) hottest_first))"

subsection \<open>Strategy 8: decade tracker\<close>

definition decade_count :: "game_ms list \<Rightarrow> int \<Rightarrow> int \<Rightarrow> int" where
  "decade_count gs start end =
     sum_list (map (\<lambda>g. int (card (Set.filter (\<lambda>n. start \<le> n \<and> n \<le> end) (numbers_ms g))))
                 (take 8 gs))"

definition decade_hits :: "game_ms list \<Rightarrow> (int \<times> int \<times> int) list" where
  "decade_hits gs =
     map (\<lambda>(start, end). (start, end, decade_count gs start end))
       [(1, 20), (21, 40), (41, 60), (61, 80)]"

text \<open>\<open>expected * 0.7\<close> is the double \<open>28.0\<close> (\<open>8 * 20 / 4 = 40.0\<close>, and \<open>40.0 * 0.7\<close>
  rounds to exactly 28), so the test \<open>d[2] < expected * 0.7\<close> on an integer tally is
  \<open>d[2] < 28\<close>. The fallback is \<open>min(decade_hits, key=lambda x: x[1])\<close>: the key is the
  second component of the triple.\<close>

definition cold_decades :: "game_ms list \<Rightarrow> (int \<times> int \<times> int) list" where
  "cold_decades gs =
     (let cold = filter (\<lambda>(start, end, count). count < 28) (decade_hits gs)
      in if cold = []
         then (case decade_hits gs of [] \<Rightarrow> [] | d # ds \<Rightarrow> [min_by (\<lambda>(start, end, count). end) d ds])
         else cold)"

definition strategy_decade :: "game_ms list \<Rightarrow> int list" where
  "strategy_decade gs =
     (if length gs < 8 then [1 .. 80]
      else (let candidates =
                  concat (map (\<lambda>(start, end, count).
                            map (\<lambda>num. (num, int (length (filter (\<lambda>g. num \<in> numbers_ms g) (take 10 gs)))))
                              [start .. end])
                          (cold_decades gs));
                ranked = sort_key snd candidates
            in map fst (take 15 ranked)))"


subsection \<open>Analyzer\<close>

text \<open>
  \<open>KenoAnalyzer\<close> keeps \<open>history\<close>, the list of the draws' number sets, most recent
  first. Its report methods print to the console; a report is recorded here with the
  integer data it prints. Ratios, averages and the Monte Carlo run (floating point and
  the random generator) are not part of the record.
\<close>

datatype kwarg = KInt nat | KList "int list"

datatype report =
    Pair_analysis_report nat nat
  | Repeat_analysis_report "nat list"
  | Balance_analysis_report "(nat \<times> nat \<times> nat \<times> nat) list"
  | Row_col_heatmap_report "int list" "int list"
  | Monte_carlo_report nat nat nat
  | Gap_chart_report nat "(int \<times> nat) list"

definition kw_int :: "(string \<times> kwarg) list \<Rightarrow> string \<Rightarrow> nat \<Rightarrow> nat" where
  "kw_int kwargs name dflt = (case map_of kwargs name of Some (KInt n) \<Rightarrow> n | _ \<Rightarrow> dflt)"

definition kw_list :: "(string \<times> kwarg) list \<Rightarrow> string \<Rightarrow> int list \<Rightarrow> int list" where
  "kw_list kwargs name dflt = (case map_of kwargs name of Some (KList xs) \<Rightarrow> xs | _ \<Rightarrow> dflt)"

definition repeat_analysis :: "int set list \<Rightarrow> nat list" where
  "repeat_analysis history =
     map (\<lambda>i. card (history ! i \<inter> history ! (i + 1))) [0 ..< length history - 1]"

definition balance_analysis :: "int set list \<Rightarrow> nat \<Rightarrow> (nat \<times> nat \<times> nat \<times> nat) list" where
  "balance_analysis history window =
     map (\<lambda>i. let g = history ! i;
                  odd = card (Set.filter (\<lambda>n. n mod 2 = 1) g);
                  even = card g - odd;
                  low = card (Set.filter (\<lambda>n. n \<le> 40) g);
                  high = card g - low
              in (odd, even, low, high))
       [0 ..< min window (length history)]"

text \<open>\<open>row_hits[r] += 1\<close> on a list of eight counters: Python accepts an index from
  \<open>-8\<close> to \<open>7\<close> (a negative one counts from the end) and raises \<open>IndexError\<close> otherwise;
  the column index \<open>(n - 1) % 10\<close> always fits the ten column counters.\<close>

definition row_col_heatmap :: "int set list \<Rightarrow> nat \<Rightarrow> py_error + int list \<times> int list" where
  "row_col_heatmap history window =
     (let gs = take window history
      in if list_ex (\<lambda>g. Set.filter (\<lambda>n. fst (rc n) < - 8 \<or> 8 \<le> fst (rc n)) g \<noteq> {}) gs
         then Inl IndexError
         else Inr (map (\<lambda>i. sum_list (map (\<lambda>g. int (card (Set.filter
                              (\<lambda>n. fst (rc n) = i \<or> fst (rc n) = i - 8) g))) gs)) [0 .. 7],
                   map (\<lambda>j. sum_list (map (\<lambda>g. int (card (Set.filter
                              (\<lambda>n. snd (rc n) = j) g))) gs)) [0 .. 9]))"

definition print_pair_analysis ::
  "int set list \<Rightarrow> (string \<times> kwarg) list \<Rightarrow> report list \<Rightarrow> py_error + report list" where
  "print_pair_analysis history kwargs console =
     Inr (console @ [Pair_analysis_report (kw_int kwargs ''top'' 20) (length history)])"

definition print_repeat_analysis ::
  "int set list \<Rightarrow> (string \<times> kwarg) list \<Rightarrow> report list \<Rightarrow> py_error + report list" where
  "print_repeat_analysis history kwargs console =
     Inr (console @ [Repeat_analysis_report (repeat_analysis history)])"

definition print_balance_analysis ::
  "int set list \<Rightarrow> (string \<times> kwarg) list \<Rightarrow> report list \<Rightarrow> py_error + report list" where
  "print_balance_analysis history kwargs console =
     Inr (console @ [Balance_analysis_report (balance_analysis history (kw_int kwargs ''window'' 10))])"

definition print_row_col_heatmap ::
  "int set list \<Rightarrow> (string \<times> kwarg) list \<Rightarrow> report list \<Rightarrow> py_error + report list" where
  "print_row_col_heatmap history kwargs console =
     (case row_col_heatmap history (kw_int kwargs ''window'' 10) of
        Inl e \<Rightarrow> Inl e
      | Inr (row_hits, col_hits) \<Rightarrow> Inr (console @ [Row_col_heatmap_report row_hits col_hits]))"

definition print_monte_carlo ::
  "int set list \<Rightarrow> (string \<times> kwarg) list \<Rightarrow> report list \<Rightarrow> py_error + report list" where
  "print_monte_carlo history kwargs console =
     Inr (console @ [Monte_carlo_report (kw_int kwargs ''pick_count'' 10)
                       (kw_int kwargs ''games'' 100) (kw_int kwargs ''simulations'' 1000)])"

definition gap_chart ::
  "int set list \<Rightarrow> (string \<times> kwarg) list \<Rightarrow> report list \<Rightarrow> py_error + report list" where
  "gap_chart history kwargs console =
     (let nums = kw_list kwargs ''numbers'' [1 .. 20];
          window = kw_int kwargs ''window'' 30
      in Inr (console @ [Gap_chart_report window
            (map (\<lambda>n. (n, length (filter (\<lambda>i. i < length history \<and> n \<in> history ! i) [0 ..< window])))
               nums)]))"

text \<open>The report methods that class \<open>KenoAnalyzer\<close> defines, by name. Its other attributes
  are \<open>__init__\<close>, \<open>run_all_analyses\<close>, the data-returning helpers \<open>pair_analysis\<close>,
  \<open>repeat_analysis\<close>, \<open>balance_analysis\<close>, \<open>row_col_heatmap\<close>, \<open>monte_carlo_sim\<close> and the
  fields \<open>games\<close> and \<open>history\<close>. Looking up any other name on the instance raises
  \<open>AttributeError\<close>.\<close>

definition KenoAnalyzer_method ::
  "string \<Rightarrow> (int set list \<Rightarrow> (string \<times> kwarg) list \<Rightarrow> report list \<Rightarrow> py_error + report list) option" where
  "KenoAnalyzer_method =
     map_of [(''print_pair_analysis'', print_pair_analysis),
             (''print_repeat_analysis'', print_repeat_analysis),
             (''print_balance_analysis'', print_balance_analysis),
             (''print_row_col_heatmap'', print_row_col_heatmap),
             (''print_monte_carlo'', print_monte_carlo),
             (''gap_chart'', gap_chart)]"

definition call_method ::
  "int set list \<Rightarrow> string \<Rightarrow> (string \<times> kwarg) list \<Rightarrow> report list \<Rightarrow> py_error + report list" where
  "call_method history name kwargs console =
     (case KenoAnalyzer_method name of
        None \<Rightarrow> Inl (AttributeError name)
      | Some m \<Rightarrow> m history kwargs console)"

definition and_then :: "py_error + 'a \<Rightarrow> ('a \<Rightarrow> py_error + 'b) \<Rightarrow> py_error + 'b" where
  "and_then r f = (case r of Inl e \<Rightarrow> Inl e | Inr x \<Rightarrow> f x)"

definition run_all_analyses :: "int set list \<Rightarrow> report list \<Rightarrow> py_error + report list" where
  "run_all_analyses history console =
     and_then (call_method history ''print_pair_analysis'' [(''top'', KInt 15)] console) (\<lambda>c1.
     and_then (call_method history ''print_repeat_analysis'' [] c1) (\<lambda>c2.
     and_then (call_method history ''print_balance_analysis'' [(''window'', KInt 10)] c2) (\<lambda>c3.
     and_then (call_method history ''print_row_col_heatmap'' [(''window'', KInt 10)] c3) (\<lambda>c4.
     and_then (call_method history ''print_gap_chart''
                 [(''numbers'', KList [1, 7, 13, 22, 37, 44, 55, 68, 72, 80])] c4) (\<lambda>c5.
     call_method history ''print_monte_carlo''
       [(''pick_count'', KInt 10), (''games'', KInt 100), (''simulations'', KInt 1000)] c5)))))"

section \<open>Hybrid game-data source (keno\_hybrid\_source.py)\<close>

text \<open>
  The checkpoint is the dictionary \<open>self.state\<close>, read from and written to
  \<open>source_state.json\<close>. A key can be absent from a file written elsewhere:
  \<open>last_game_id\<close> is read with \<open>get(..., 0)\<close>, \<open>manual_entries\<close> is indexed directly.
  A table row carries its \<open>game_id\<close>, and for each column \<open>number_i\<close> the result of
  \<open>int(...)\<close>, \<open>None\<close> when the column is missing or not numeric.
\<close>

record manual_entry =
  me_game_id :: int
  me_drawn :: "int list"
  me_timestamp :: string

record source_state =
  last_game_id :: "int option"
  manual_entries :: "manual_entry list option"

record table_row =
  row_game_id :: int
  row_date :: string
  row_time :: string
  row_number :: "nat \<Rightarrow> int option"
  row_datetime :: string

record source_game =
  sg_game_id :: int
  sg_drawn :: "int list"
  sg_date :: string
  sg_time :: string

text \<open>\<open>state_dir_exists\<close> tells whether the directory \<open>keno_data/\<close> of the checkpoint
  file exists; this class never creates it.\<close>

record hybrid_source =
  state :: source_state
  state_file :: "source_state option"
  state_dir_exists :: bool
  games_df :: "table_row list"

text \<open>\<open>_save_state\<close> opens the checkpoint file for writing, which raises
  \<open>FileNotFoundError\<close> when the directory is missing, and dumps \<open>self.state\<close>.\<close>

definition save_state :: "hybrid_source \<Rightarrow> py_error + hybrid_source" where
  "save_state src =
     (if state_dir_exists src then Inr (src\<lparr>state_file := Some (state src)\<rparr>)
      else Inl (FileNotFoundError ''keno_data/source_state.json''))"

definition row_drawn :: "table_row \<Rightarrow> int list" where
  "row_drawn r = concat (map (\<lambda>i. case row_number r i of None \<Rightarrow> [] | Some n \<Rightarrow> [n]) [1 ..< 21])"

definition get_latest_game :: "hybrid_source \<Rightarrow> hybrid_source \<times> (source_game \<times> string) option" where
  "get_latest_game src =
     (if games_df src = [] then (src, None)
      else (let latest = last (games_df src); drawn = row_drawn latest
            in if length drawn \<noteq> 20 then (src, None)
               else (src, Some (\<lparr>sg_game_id = row_game_id latest, sg_drawn = sort drawn,
                                  sg_date = row_date latest, sg_time = row_time latest\<rparr>,
                                row_datetime latest))))"

definition new_games_since :: "table_row list \<Rightarrow> int \<Rightarrow> source_game list" where
  "new_games_since rows last_id =
     concat (map (\<lambda>r. if row_game_id r > last_id
                      then (let drawn = row_drawn r
                            in if length drawn = 20
                               then [\<lparr>sg_game_id = row_game_id r, sg_drawn = sort drawn,
                                      sg_date = row_date r, sg_time = row_time r\<rparr>]
                               else [])
                      else []) rows)"

definition get_new_games_since :: "hybrid_source \<Rightarrow> int \<Rightarrow> hybrid_source \<times> source_game list" where
  "get_new_games_since src last_id =
     (if games_df src = [] then (src, []) else (src, new_games_since (games_df src) last_id))"

text \<open>\<open>add_manual_game\<close>; \<open>now\<close> is the clock reading \<open>datetime.now().isoformat()\<close>.
  The entry is appended to the dictionary in memory before \<open>_save_state\<close> runs, so an
  error of the write leaves the entry in memory. The result is the source afterwards and
  the value returned or the exception raised.\<close>

definition add_manual_game ::
  "hybrid_source \<Rightarrow> int \<Rightarrow> int list \<Rightarrow> string \<Rightarrow> hybrid_source \<times> (py_error + bool)" where
  "add_manual_game src gid drawn now =
     (if length drawn \<noteq> 20 then (src, Inr False)
      else if \<not> list_all (\<lambda>n. 1 \<le> n \<and> n \<le> 80) drawn then (src, Inr False)
      else (case manual_entries (state src) of
              None \<Rightarrow> (src, Inl (KeyError ''manual_entries''))
            | Some entries \<Rightarrow>
                (let src1 = src\<lparr>state := (state src)\<lparr>manual_entries :=
                         Some (entries @ [\<lparr>me_game_id = gid, me_drawn = sort drawn,
                                           me_timestamp = now\<rparr>])\<rparr>\<rparr>
                 in case save_state src1 of
                      Inl e \<Rightarrow> (src1, Inl e)
                    | Inr src2 \<Rightarrow> (src2, Inr True))))"

definition get_manual_game :: "hybrid_source \<Rightarrow> int \<Rightarrow> hybrid_source \<times> manual_entry option" where
  "get_manual_game src gid =
     (src, find (\<lambda>e. me_game_id e = gid)
             (case manual_entries (state src) of None \<Rightarrow> [] | Some es \<Rightarrow> es))"

text \<open>\<open>check_for_updates\<close> assigns \<open>last_game_id\<close> in memory, then calls \<open>_save_state\<close>,
  then returns the new games: an error of the write leaves the id advanced in memory,
  nothing written and no list returned.\<close>

definition check_for_updates :: "hybrid_source \<Rightarrow> hybrid_source \<times> (py_error + source_game list)" where
  "check_for_updates src =
     (if games_df src = [] then (src, Inr [])
      else (let latest_id = row_game_id (last (games_df src));
                last_id = (case last_game_id (state src) of None \<Rightarrow> 0 | Some i \<Rightarrow> i)
            in if latest_id > last_id
               then (let new_games = snd (get_new_games_since src last_id);
                         src1 = src\<lparr>state := (state src)\<lparr>last_game_id := Some latest_id\<rparr>\<rparr>
                     in case save_state src1 of
                          Inl e \<Rightarrow> (src1, Inl e)
                        | Inr src2 \<Rightarrow> (src2, Inr new_games))
               else (src, Inr [])))"

section \<open>Notification sender (keno\_telegram.py)\<close>

text \<open>
  The two credential literals of the module are not reproduced; nothing below depends
  on their value. \<open>requests.post\<close> is the environment: it raises (an \<open>Exception\<close>, such
  as a connection error or a timeout) or returns a response whose \<open>json()\<close> raises or
  yields a JSON value.
\<close>

datatype json = JNull | JBool bool | JNum int | JStr string | JArr "json list"
  | JObj "(string \<times> json) list"

fun truthy :: "json \<Rightarrow> bool" where
  "truthy JNull = False"
| "truthy (JBool b) = b"
| "truthy (JNum n) = (n \<noteq> 0)"
| "truthy (JStr s) = (s \<noteq> [])"
| "truthy (JArr xs) = (xs \<noteq> [])"
| "truthy (JObj kvs) = (kvs \<noteq> [])"

datatype http_result = Raised string | Responded "string + json"

datatype telegram_line = Telegram_error json | Telegram_send_error string

definition TELEGRAM_BOT_TOKEN :: string where
  "TELEGRAM_BOT_TOKEN = ''TOKEN''"

definition TELEGRAM_CHAT_ID :: string where
  "TELEGRAM_CHAT_ID = ''CHAT''"

definition telegram_url :: string where
  "telegram_url = ''https://api.telegram.org/bot'' @ TELEGRAM_BOT_TOKEN @ ''/sendMessage''"

definition json_get :: "(string \<times> json) list \<Rightarrow> string \<Rightarrow> json \<Rightarrow> json" where
  "json_get kvs k d = (case map_of kvs k of None \<Rightarrow> d | Some v \<Rightarrow> v)"

definition send_telegram_message ::
  "(string \<Rightarrow> json \<Rightarrow> http_result) \<Rightarrow> telegram_line list \<Rightarrow> string \<Rightarrow> string option
     \<Rightarrow> telegram_line list \<times> bool" where
  "send_telegram_message post console message chat_id =
     (let chat = (case chat_id of None \<Rightarrow> TELEGRAM_CHAT_ID | Some c \<Rightarrow> c)
      in case post telegram_url (JObj [(''chat_id'', JStr chat), (''text'', JStr message)]) of
           Raised e \<Rightarrow> (console @ [Telegram_send_error e], False)
         | Responded body \<Rightarrow>
             (case body of
                Inl e \<Rightarrow> (console @ [Telegram_send_error e], False)
              | Inr result \<Rightarrow>
                  (case result of
                     JObj kvs \<Rightarrow>
                       if truthy (json_get kvs ''ok'' JNull) then (console, True)
                       else (console @ [Telegram_error (json_get kvs ''description'' (JStr ''Unknown''))],
                             False)
                   | _ \<Rightarrow> (console @ [Telegram_send_error ''object has no attribute get''], False))))"

section \<open>Simple historical scraper (simple\_keno\_scraper.py)\<close>





















section \<open>Properties of the board helpers\<close>

lemma get_row_col_range:
  "1 \<le> n \<Longrightarrow> n \<le> 80 \<Longrightarrow>
     1 \<le> get_row n \<and> get_row n \<le> 8 \<and> 1 \<le> get_col n \<and> get_col n \<le> 10
     \<and> (get_row n - 1) * 10 + get_col n = n"
  by (auto simp: get_row_def get_col_def)

lemma to_num_rc: "to_num (fst (rc n)) (snd (rc n)) = n"
  by (simp add: to_num_def rc_def COLS_def)

lemma get_neighbors_not_self: "n \<notin> get_neighbors n"
  by (auto simp: get_neighbors_def Let_def split: if_splits)

lemma get_neighbors_on_board: "get_neighbors n \<subseteq> {1..80}"
  by (auto simp: get_neighbors_def Let_def split: if_splits)

lemma get_neighbors_ms_not_self: "n \<notin> get_neighbors_ms n"
proof (cases "rc n")
  case (Pair a b)
  have "n = a * 10 + b + 1"
    using to_num_rc [of n] Pair by (simp add: to_num_def COLS_def)
  then show ?thesis
    using Pair by (auto simp: get_neighbors_ms_def ROWS_def COLS_def to_num_def split: if_splits)
qed

lemma get_neighbors_ms_on_board: "get_neighbors_ms n \<subseteq> {1..80}"
proof (cases "rc n")
  case (Pair a b)
  then show ?thesis
    by (auto simp: get_neighbors_ms_def ROWS_def COLS_def to_num_def split: if_splits)
qed

lemma interior_neighbors:
  "\<forall>n \<in> set [1 .. 80].
     2 \<le> get_row n \<and> get_row n \<le> 7 \<and> 2 \<le> get_col n \<and> get_col n \<le> 9 \<longrightarrow>
     card (get_neighbors n) = 8 \<and> card (get_neighbors_ms n) = 8"
  by code_simp

lemma corner_neighbors:
  "card (get_neighbors 1) = 3 \<and> card (get_neighbors_ms 1) = 3
   \<and> card (get_neighbors 25) = 8 \<and> card (get_neighbors_ms 25) = 8"
  by code_simp

text \<open>
  Claim C7. For every \<open>n\<close> from 1 to 80 the row is in 1..8, the column in 1..10 and
  \<open>(row - 1) * 10 + col\<close> is \<open>n\<close> again (for the zero-based \<open>rc\<close>/\<open>to_num\<close> of the
  multi-strategy module too); \<open>mirror_num\<close> is an involution without fixed point; a
  neighbour set, in either module, never holds \<open>n\<close> itself nor a value off the board;
  an interior number has 8 neighbours (25 is one) and the corner 1 has 3.
\<close>

theorem board_geometry:
  "(1 \<le> n \<and> n \<le> 80 \<longrightarrow>
      get_row n \<in> {1..8} \<and> get_col n \<in> {1..10} \<and> (get_row n - 1) * 10 + get_col n = n
      \<and> to_num (fst (rc n)) (snd (rc n)) = n)
   \<and> mirror_num (mirror_num n) = n \<and> mirror_num n \<noteq> n
   \<and> n \<notin> get_neighbors n \<and> get_neighbors n \<subseteq> {1..80}
   \<and> n \<notin> get_neighbors_ms n \<and> get_neighbors_ms n \<subseteq> {1..80}
   \<and> (1 \<le> n \<and> n \<le> 80 \<and> 2 \<le> get_row n \<and> get_row n \<le> 7 \<and> 2 \<le> get_col n \<and> get_col n \<le> 9 \<longrightarrow>
        card (get_neighbors n) = 8 \<and> card (get_neighbors_ms n) = 8)
   \<and> card (get_neighbors 25) = 8 \<and> card (get_neighbors_ms 25) = 8
   \<and> card (get_neighbors 1) = 3 \<and> card (get_neighbors_ms 1) = 3"
proof -
  have rowcol: "1 \<le> n \<and> n \<le> 80 \<longrightarrow>
      get_row n \<in> {1..8} \<and> get_col n \<in> {1..10} \<and> (get_row n - 1) * 10 + get_col n = n
      \<and> to_num (fst (rc n)) (snd (rc n)) = n"
    using get_row_col_range [of n] to_num_rc [of n] by simp
  have mirror: "mirror_num (mirror_num n) = n \<and> mirror_num n \<noteq> n"
    by (simp add: mirror_num_def) presburger
  have interior: "1 \<le> n \<and> n \<le> 80 \<and> 2 \<le> get_row n \<and> get_row n \<le> 7 \<and> 2 \<le> get_col n \<and> get_col n \<le> 9 \<longrightarrow>
        card (get_neighbors n) = 8 \<and> card (get_neighbors_ms n) = 8"
    using interior_neighbors by simp
  show ?thesis
    using rowcol mirror interior corner_neighbors
      get_neighbors_not_self [of n] get_neighbors_on_board [of n]
      get_neighbors_ms_not_self [of n] get_neighbors_ms_on_board [of n]
    by blast
qed

theorem board_geometry_witness:
  "(1::int) \<le> 25 \<and> (25::int) \<le> 80
   \<and> 2 \<le> get_row 25 \<and> get_row 25 \<le> 7 \<and> 2 \<le> get_col 25 \<and> get_col 25 \<le> 9
   \<and> get_row 25 = 3 \<and> get_col 25 = 5 \<and> (get_row 25 - 1) * 10 + get_col 25 = 25
   \<and> mirror_num (mirror_num 25) = 25 \<and> mirror_num 25 = 56
   \<and> 25 \<notin> get_neighbors 25 \<and> get_neighbors 25 \<subseteq> {1..80}
   \<and> card (get_neighbors 25) = 8 \<and> card (get_neighbors_ms 25) = 8"
proof -
  have rc25: "get_row 25 = 3 \<and> get_col 25 = 5"
    by (simp add: get_row_def get_col_def)
  have m: "mirror_num 25 = 56" by (simp add: mirror_num_def)
  show ?thesis
    using board_geometry [of 25] rc25 m by simp
qed

section \<open>The cluster strategy against its description\<close>

text \<open>On the board the code's neighbour helper is the 3 by 3 neighbourhood of the
  description, so the code's scores are the description's scores, and the code's sorted
  list pairs each number of the description's hottest-first list with its score.\<close>

lemma neighbors_ms_moore: "\<forall>n \<in> set [1 .. 80]. get_neighbors_ms n = moore_neighborhood n"
  by code_simp

lemma heat_scores_spec:
  "heat_scores gs = map (\<lambda>n. (n, neighbor_hit_score gs n)) [1 .. 80]"
  unfolding heat_scores_def neighbor_hit_score_def
  using neighbors_ms_moore by (intro map_cong) auto

lemma insort_key_map:
  "insort_key k (g x) (map g ys) = map g (insort_key (\<lambda>y. k (g y)) x ys)"
  by (induction ys) simp_all

lemma sort_key_map:
  "sort_key k (map g xs) = map g (sort_key (\<lambda>y. k (g y)) xs)"
  by (induction xs) (simp_all add: insort_key_map)

lemma sorted_heat_spec:
  "sorted_heat gs
   = map (\<lambda>n. (n, neighbor_hit_score gs n)) (sort_key (\<lambda>n. - neighbor_hit_score gs n) [1 .. 80])"
  by (simp add: sorted_heat_def heat_scores_spec sort_key_map)

lemma length_heat_scores: "length (heat_scores gs) = 80"
  by (simp add: heat_scores_def)

lemma length_sorted_heat: "length (sorted_heat gs) = 80"
  by (simp add: sorted_heat_def length_heat_scores)

lemma sorted_heat_descending:
  assumes "i \<le> j" "j < 80"
  shows "snd (sorted_heat gs ! j) \<le> snd (sorted_heat gs ! i)"
proof -
  let ?ks = "map (\<lambda>x. - snd x) (sorted_heat gs)"
  have "sorted ?ks" by (simp add: sorted_heat_def)
  moreover have "j < length ?ks" using assms by (simp add: length_sorted_heat)
  ultimately have "?ks ! i \<le> ?ks ! j" using assms(1) by (simp only: sorted_nth_mono)
  then show ?thesis using assms by (simp add: length_sorted_heat)
qed

lemma take_filter_prefix:
  assumes "m \<le> length xs" "\<forall>i<m. P (xs ! i)"
  shows "take m (filter P xs) = take m xs"
proof -
  have all: "\<forall>x \<in> set (take m xs). P x"
    using assms by (auto simp: in_set_conv_nth)
  have "filter P xs = filter P (take m xs) @ filter P (drop m xs)"
    by (metis append_take_drop_id filter_append)
  also have "filter P (take m xs) = take m xs"
    using all by (simp add: filter_id_conv)
  finally show ?thesis using assms(1) by simp
qed

lemma descending_scores:
  "map snd (sorted_heat gs) = rev (sort (map snd (heat_scores gs)))"
proof -
  let ?ys = "map snd (sorted_heat gs)"
  have "sorted (map (\<lambda>x. - snd x) (sorted_heat gs))" by (simp add: sorted_heat_def)
  then have "sorted_wrt (\<lambda>x y. y \<le> x) ?ys"
    by (simp add: sorted_wrt_map)
  then have "sorted (rev ?ys)" by (simp add: sorted_wrt_rev)
  moreover have "mset (rev ?ys) = mset (map snd (heat_scores gs))"
    by (simp add: sorted_heat_def)
  ultimately have "sort (map snd (heat_scores gs)) = rev ?ys"
    by (simp only: properties_for_sort)
  then show ?thesis by simp
qed

lemma spec_scores: "map snd (heat_scores gs) = map (neighbor_hit_score gs) [1 .. 80]"
  by (simp add: heat_scores_spec comp_def)

lemma nth_highest_20:
  "nth_highest 20 (map (neighbor_hit_score gs) [1 .. 80]) = snd (sorted_heat gs ! 19)"
proof -
  have "nth_highest 20 (map (neighbor_hit_score gs) [1 .. 80]) = map snd (sorted_heat gs) ! 19"
    by (simp only: nth_highest_def descending_scores spec_scores) simp
  also have "\<dots> = snd (sorted_heat gs ! 19)"
    by (rule nth_map) (simp add: length_sorted_heat)
  finally show ?thesis .
qed

lemma hot_prefix:
  assumes "19 \<le> k" "k < 80"
  shows "take 20 (filter (\<lambda>(n, heat). heat \<ge> snd (sorted_heat gs ! k)) (sorted_heat gs))
         = take 20 (sorted_heat gs)"
proof (rule take_filter_prefix)
  show "20 \<le> length (sorted_heat gs)" by (simp add: length_sorted_heat)
  show "\<forall>i<20. (case sorted_heat gs ! i of (n, heat) \<Rightarrow> snd (sorted_heat gs ! k) \<le> heat)"
  proof (intro allI impI)
    fix i :: nat assume "i < 20"
    then have "i \<le> k" using assms by simp
    then have "snd (sorted_heat gs ! k) \<le> snd (sorted_heat gs ! i)"
      using assms(2) by (rule sorted_heat_descending)
    then show "case sorted_heat gs ! i of (n, heat) \<Rightarrow> snd (sorted_heat gs ! k) \<le> heat"
      by (simp add: case_prod_unfold)
  qed
qed

lemma spec_filter:
  "filter (\<lambda>n. neighbor_hit_score gs n \<ge> thr) (sort_key (\<lambda>n. - neighbor_hit_score gs n) [1 .. 80])
   = map fst (filter (\<lambda>(n, heat). heat \<ge> thr) (sorted_heat gs))"
  by (simp add: sorted_heat_spec filter_map comp_def)

lemma cluster_spec_prefix: "cluster_spec gs = map fst (take 20 (sorted_heat gs))"
proof -
  have "cluster_spec gs
        = take 20 (map fst (filter (\<lambda>(n, heat). heat \<ge> snd (sorted_heat gs ! 19)) (sorted_heat gs)))"
    by (simp only: cluster_spec_def Let_def nth_highest_20 spec_filter)
  then show ?thesis by (simp add: take_map hot_prefix)
qed

text \<open>
  Claim C4. For every non-empty history the cluster strategy returns, without raising,
  the list of the description: score every number from 1 to 80 by the neighbours of its
  3 by 3 neighbourhood that were drawn, summed over the last three draws; take the
  20th-highest of the 80 scores as threshold; keep every number at or above it, hottest
  first; cut to 20. The code reads the threshold at index 20 of its sorted list, one
  place further down; after the cut to 20 the returned list is the same.
\<close>

theorem cluster_matches_spec:
  assumes "gs \<noteq> []"
  shows "strategy_cluster_heat gs = Inr (cluster_spec gs) \<and> length (cluster_spec gs) = 20"
proof -
  have thr: "top_threshold (sorted_heat gs) = Inr (snd (sorted_heat gs ! 20))"
    by (simp add: top_threshold_def length_sorted_heat)
  have "strategy_cluster_heat gs = Inr (map fst (take 20 (sorted_heat gs)))"
    using assms by (simp add: strategy_cluster_heat_def thr take_map hot_prefix)
  moreover have "length (cluster_spec gs) = 20"
    by (simp add: cluster_spec_prefix length_sorted_heat)
  ultimately show ?thesis by (simp add: cluster_spec_prefix)
qed

text \<open>A history of four draws: the result is that of its first three draws, differs from
  that of its first two, and the fourth draw plays no part.\<close>

theorem cluster_matches_spec_witness:
  "[load_game_ms 4 ''01/01/24'' ''10:15:00'' [1 .. 20],
    load_game_ms 3 ''01/01/24'' ''10:10:00'' [31 .. 50],
    load_game_ms 2 ''01/01/24'' ''10:05:00'' [61 .. 80],
    load_game_ms 1 ''01/01/24'' ''10:00:00'' [21 .. 40]] \<noteq> []
   \<and> strategy_cluster_heat
       [load_game_ms 4 ''01/01/24'' ''10:15:00'' [1 .. 20],
        load_game_ms 3 ''01/01/24'' ''10:10:00'' [31 .. 50],
        load_game_ms 2 ''01/01/24'' ''10:05:00'' [61 .. 80],
        load_game_ms 1 ''01/01/24'' ''10:00:00'' [21 .. 40]]
     = Inr [22, 23, 24, 25, 26, 27, 28, 29, 52, 53, 54, 55, 56, 57, 58, 59, 2, 3, 4, 5]
   \<and> cluster_spec
       [load_game_ms 4 ''01/01/24'' ''10:15:00'' [1 .. 20],
        load_game_ms 3 ''01/01/24'' ''10:10:00'' [31 .. 50],
        load_game_ms 2 ''01/01/24'' ''10:05:00'' [61 .. 80],
        load_game_ms 1 ''01/01/24'' ''10:00:00'' [21 .. 40]]
     = [22, 23, 24, 25, 26, 27, 28, 29, 52, 53, 54, 55, 56, 57, 58, 59, 2, 3, 4, 5]
   \<and> cluster_spec
       [load_game_ms 4 ''01/01/24'' ''10:15:00'' [1 .. 20],
        load_game_ms 3 ''01/01/24'' ''10:10:00'' [31 .. 50]]
     = [22, 23, 24, 25, 26, 27, 28, 29, 2, 3, 4, 5, 6, 7, 8, 9, 12, 13, 14, 15]"
proof -
  let ?g4 = "load_game_ms 4 ''01/01/24'' ''10:15:00'' [1 .. 20]"
  let ?g3 = "load_game_ms 3 ''01/01/24'' ''10:10:00'' [31 .. 50]"
  let ?g2 = "load_game_ms 2 ''01/01/24'' ''10:05:00'' [61 .. 80]"
  let ?g1 = "load_game_ms 1 ''01/01/24'' ''10:00:00'' [21 .. 40]"
  have ne: "[?g4, ?g3, ?g2, ?g1] \<noteq> []" "[?g4, ?g3] \<noteq> []" by simp_all
  have v4: "map fst (take 20 (sorted_heat [?g4, ?g3, ?g2, ?g1]))
       = [22, 23, 24, 25, 26, 27, 28, 29, 52, 53, 54, 55, 56, 57, 58, 59, 2, 3, 4, 5]"
    by code_simp
  have v2: "map fst (take 20 (sorted_heat [?g4, ?g3]))
       = [22, 23, 24, 25, 26, 27, 28, 29, 2, 3, 4, 5, 6, 7, 8, 9, 12, 13, 14, 15]"
    by code_simp
  have c4: "cluster_spec [?g4, ?g3, ?g2, ?g1]
       = [22, 23, 24, 25, 26, 27, 28, 29, 52, 53, 54, 55, 56, 57, 58, 59, 2, 3, 4, 5]"
    by (simp only: cluster_spec_prefix v4)
  have c2: "cluster_spec [?g4, ?g3]
       = [22, 23, 24, 25, 26, 27, 28, 29, 2, 3, 4, 5, 6, 7, 8, 9, 12, 13, 14, 15]"
    by (simp only: cluster_spec_prefix v2)
  from cluster_matches_spec [OF ne(1)]
  have "strategy_cluster_heat [?g4, ?g3, ?g2, ?g1]
       = Inr [22, 23, 24, 25, 26, 27, 28, 29, 52, 53, 54, 55, 56, 57, 58, 59, 2, 3, 4, 5]"
    by (simp only: c4)
  with ne(1) c4 c2 show ?thesis by (intro conjI)
qed

section \<open>The elimination strategy against the tracker's playable numbers\<close>

lemma elimination_step_passes:
  "elimination_step gs num A = (if passes_all_rules gs num then insert num A else A)"
  by (simp add: elimination_step_def passes_all_rules_def)

lemma fold_elimination_step:
  "fold (elimination_step gs) xs A = A \<union> {n \<in> set xs. passes_all_rules gs n}"
  by (induction xs arbitrary: A) (auto simp: elimination_step_passes)

text \<open>On every non-empty history, no number that the strategy returns passes the rules.\<close>

lemma strategy_elimination_never_playable:
  assumes "gs \<noteq> []" "n \<in> set (strategy_elimination gs)"
  shows "\<not> passes_all_rules gs n"
proof -
  let ?remove = "fold (elimination_step gs) [1 .. 80] {}"
  from assms have "n \<in> set (take 20 (sort_key (\<lambda>n. (- hits_in_n gs n 50, hits_in_n gs n 10))
                      (filter (\<lambda>n. n \<notin> ?remove) [1 .. 80])))"
    by (simp add: strategy_elimination_def Let_def)
  then have "n \<in> set (filter (\<lambda>n. n \<notin> ?remove) [1 .. 80])"
    by (auto dest: in_set_takeD)
  then have "n \<in> set [1 .. 80]" "n \<notin> ?remove" by simp_all
  then show ?thesis by (simp add: fold_elimination_step)
qed

text \<open>
  Claim C1. On the history that holds the single draw 1..20 the tracker's playable
  numbers are 21..30: the numbers of the third row, the only ones that did not hit, lie
  off the two hot rows and touch a drawn number. On the same history
  \<open>strategy_elimination\<close> returns 1..20, all of them eliminated by the first rule and
  none of them playable: the loop collects in \<open>remove\<close> the numbers that pass every
  rule, and the result is taken from the numbers outside \<open>remove\<close>.
\<close>

theorem strategy_elimination_returns_eliminated:
  "get_playable_numbers
     [\<lparr>game_id = 1, date = ''01/01/24'', time = ''10:00:00'', numbers = [1 .. 20],
       unique_key = ''1_01/01/24''\<rparr>]
     = [21, 22, 23, 24, 25, 26, 27, 28, 29, 30]
   \<and> strategy_elimination [load_game_ms 1 ''01/01/24'' ''10:00:00'' [1 .. 20]]
     = [1, 2, 3, 4, 5, 6, 7, 8, 9, 10, 11, 12, 13, 14, 15, 16, 17, 18, 19, 20]"
  by code_simp

section \<open>The analyzer's full run\<close>

lemma print_gap_chart_undefined: "KenoAnalyzer_method ''print_gap_chart'' = None"
  by (simp add: KenoAnalyzer_method_def)

lemma run_all_analyses_always_raises: "isl (run_all_analyses history console)"
proof (cases "row_col_heatmap history 10")
  case (Inl e)
  then show ?thesis
    by (simp add: run_all_analyses_def and_then_def call_method_def KenoAnalyzer_method_def
        print_pair_analysis_def print_repeat_analysis_def print_balance_analysis_def
        print_row_col_heatmap_def kw_int_def)
next
  case (Inr hm)
  then show ?thesis
    by (cases hm)
      (simp add: run_all_analyses_def and_then_def call_method_def KenoAnalyzer_method_def
        print_pair_analysis_def print_repeat_analysis_def print_balance_analysis_def
        print_row_col_heatmap_def kw_int_def)
qed

text \<open>
  Claim C2. On a history of two draws \<open>run_all_analyses\<close> prints the pair, repeat,
  balance and heat-map reports and then raises \<open>AttributeError\<close>: it calls
  \<open>self.print_gap_chart\<close>, and the class defines the gap chart under the name
  \<open>gap_chart\<close>. Neither the gap chart nor the Monte Carlo report is produced.
\<close>

theorem run_all_analyses_raises:
  "run_all_analyses [set [1 .. 20], set [5 .. 24]] []
     = Inl (AttributeError ''print_gap_chart'')"
  by code_simp

section \<open>The decade strategy without a cold band\<close>

text \<open>Whenever no band is below the threshold, the fallback is the first band.\<close>

lemma decade_fallback_first_band:
  assumes "filter (\<lambda>(start, end, count). count < 28) (decade_hits gs) = []"
  shows "cold_decades gs = [(1, 20, decade_count gs 1 20)]"
  using assms by (simp add: cold_decades_def decade_hits_def)

text \<open>
  Claim C3. Eight draws with 6, 5, 5 and 4 numbers in the four bands give the tallies
  48, 40, 40 and 32: no band is below 28 and the last band, 61..80, has the lowest
  tally. The strategy returns numbers of the first band, 1..20, whose tally is the
  highest: the fallback takes the minimum by the band's upper bound, not by its tally.
\<close>

theorem strategy_decade_takes_first_band:
  "decade_hits (map (\<lambda>i. load_game_ms i ''01/01/24'' ''10:00:00''
                        ([1 .. 6] @ [21 .. 25] @ [41 .. 45] @ [61 .. 64]))
                  [8, 7, 6, 5, 4, 3, 2, 1])
     = [(1, 20, 48), (21, 40, 40), (41, 60, 40), (61, 80, 32)]
   \<and> strategy_decade (map (\<lambda>i. load_game_ms i ''01/01/24'' ''10:00:00''
                        ([1 .. 6] @ [21 .. 25] @ [41 .. 45] @ [61 .. 64]))
                  [8, 7, 6, 5, 4, 3, 2, 1])
     = [7, 8, 9, 10, 11, 12, 13, 14, 15, 16, 17, 18, 19, 20, 1]"
  by code_simp

section \<open>Scoring a prediction\<close>

text \<open>
  Claim C5, as stated, at a tracker that holds two predictions filed under game id 7
  (ids cycle from 1 to 999, and nothing removes the older one): the score is computed
  from the first of them, \<open>[30, 31, 32]\<close>, and has no hit, while the prediction
  \<open>[1, 2, 3, 4, 5]\<close>, filed under the same id, shares 3, 4 and 5 with the draw.
\<close>

theorem score_prediction_counterexample:
  "snd (score_prediction
          \<lparr>games = [\<lparr>game_id = 7, date = ''01/02/24'', time = ''10:00:00'',
                      numbers = [3 .. 22], unique_key = ''7_01/02/24''\<rparr>],
            predictions = [\<lparr>p_game_id = 7, p_date = ''01/01/24'',
                            playable_numbers = [30, 31, 32], removed_count = 77\<rparr>,
                           \<lparr>p_game_id = 7, p_date = ''01/02/24'',
                            playable_numbers = [1, 2, 3, 4, 5], removed_count = 75\<rparr>],
            scores = [], games_csv = None, predictions_csv = None, scores_csv = None\<rparr> 7)
     = Some \<lparr>r_game_id = 7, hits = 0, playable_count = 3, hit_numbers = [],
              predicted = [30, 31, 32], actual = [3 .. 22]\<rparr>
   \<and> int (card (set [1, 2, 3, 4, 5] \<inter> set [3 .. 22])) = (3::int)
   \<and> sorted_list_of_set (set [1, 2, 3, 4, 5] \<inter> set [3 .. 22]) = [3, 4, 5::int]"
  by code_simp

text \<open>
  Claim C5, amended. \<open>score_prediction(g)\<close> scores the first prediction filed under
  \<open>g\<close> against the first stored draw with game id \<open>g\<close>: the hits are the size of the
  intersection of the two number sets, the hit numbers are that intersection in
  ascending order, and the score is appended to the scores list. It returns a score
  whenever a prediction and a draw with that id exist; when either is missing it
  returns no value and leaves the tracker, its scores list included, unchanged.
\<close>

theorem score_prediction_first_match:
  "(find (\<lambda>p. p_game_id p = gid) (predictions t) = Some p
      \<and> find (\<lambda>g. game_id g = gid) (games t) = Some g \<longrightarrow>
      (\<exists>t' r. score_prediction t gid = (t', Some r)
         \<and> hits r = int (card (set (playable_numbers p) \<inter> set (numbers g)))
         \<and> hit_numbers r = sorted_list_of_set (set (playable_numbers p) \<inter> set (numbers g))
         \<and> scores t' = scores t @
              [\<lparr>s_game_id = gid, s_hits = hits r,
                s_playable_count = int (length (playable_numbers p))\<rparr>]))
   \<and> ((\<exists>p \<in> set (predictions t). p_game_id p = gid) \<and> (\<exists>g \<in> set (games t). game_id g = gid) \<longrightarrow>
        snd (score_prediction t gid) \<noteq> None)
   \<and> (\<not> (\<exists>p \<in> set (predictions t). p_game_id p = gid) \<or> \<not> (\<exists>g \<in> set (games t). game_id g = gid) \<longrightarrow>
        score_prediction t gid = (t, None))"
proof (intro conjI impI)
  assume "find (\<lambda>p. p_game_id p = gid) (predictions t) = Some p
      \<and> find (\<lambda>g. game_id g = gid) (games t) = Some g"
  then show "\<exists>t' r. score_prediction t gid = (t', Some r)
         \<and> hits r = int (card (set (playable_numbers p) \<inter> set (numbers g)))
         \<and> hit_numbers r = sorted_list_of_set (set (playable_numbers p) \<inter> set (numbers g))
         \<and> scores t' = scores t @
              [\<lparr>s_game_id = gid, s_hits = hits r,
                s_playable_count = int (length (playable_numbers p))\<rparr>]"
    by (simp add: score_prediction_def Let_def save_scores_def)
next
  assume "(\<exists>p \<in> set (predictions t). p_game_id p = gid) \<and> (\<exists>g \<in> set (games t). game_id g = gid)"
  then have "find (\<lambda>p. p_game_id p = gid) (predictions t) \<noteq> None"
    and "find (\<lambda>g. game_id g = gid) (games t) \<noteq> None"
    by (auto simp: find_None_iff)
  then show "snd (score_prediction t gid) \<noteq> None"
    by (auto simp: score_prediction_def Let_def)
next
  assume "\<not> (\<exists>p \<in> set (predictions t). p_game_id p = gid) \<or> \<not> (\<exists>g \<in> set (games t). game_id g = gid)"
  then have "find (\<lambda>p. p_game_id p = gid) (predictions t) = None
      \<or> find (\<lambda>g. game_id g = gid) (games t) = None"
    by (auto simp: find_None_iff)
  then show "score_prediction t gid = (t, None)"
    by (auto simp: score_prediction_def split: option.splits)
qed

theorem score_prediction_first_match_witness:
  "find (\<lambda>p. p_game_id p = 7)
      (predictions \<lparr>games = [\<lparr>game_id = 7, date = ''01/01/24'', time = ''10:00:00'',
                               numbers = [3 .. 22], unique_key = ''7_01/01/24''\<rparr>],
                     predictions = [\<lparr>p_game_id = 7, p_date = ''01/01/24'',
                                     playable_numbers = [1, 2, 3, 4, 5], removed_count = 75\<rparr>],
                     scores = [], games_csv = None, predictions_csv = None, scores_csv = None\<rparr>)
     = Some \<lparr>p_game_id = 7, p_date = ''01/01/24'',
              playable_numbers = [1, 2, 3, 4, 5], removed_count = 75\<rparr>
   \<and> find (\<lambda>g. game_id g = 7)
      (games \<lparr>games = [\<lparr>game_id = 7, date = ''01/01/24'', time = ''10:00:00'',
                         numbers = [3 .. 22], unique_key = ''7_01/01/24''\<rparr>],
               predictions = [\<lparr>p_game_id = 7, p_date = ''01/01/24'',
                               playable_numbers = [1, 2, 3, 4, 5], removed_count = 75\<rparr>],
               scores = [], games_csv = None, predictions_csv = None, scores_csv = None\<rparr>)
     = Some \<lparr>game_id = 7, date = ''01/01/24'', time = ''10:00:00'',
              numbers = [3 .. 22], unique_key = ''7_01/01/24''\<rparr>
   \<and> (\<exists>t' r. score_prediction
          \<lparr>games = [\<lparr>game_id = 7, date = ''01/01/24'', time = ''10:00:00'',
                      numbers = [3 .. 22], unique_key = ''7_01/01/24''\<rparr>],
            predictions = [\<lparr>p_game_id = 7, p_date = ''01/01/24'',
                            playable_numbers = [1, 2, 3, 4, 5], removed_count = 75\<rparr>],
            scores = [], games_csv = None, predictions_csv = None, scores_csv = None\<rparr> 7
          = (t', Some r) \<and> hits r = 3 \<and> hit_numbers r = [3, 4, 5])
   \<and> score_prediction
          \<lparr>games = [\<lparr>game_id = 7, date = ''01/01/24'', time = ''10:00:00'',
                      numbers = [3 .. 22], unique_key = ''7_01/01/24''\<rparr>],
            predictions = [\<lparr>p_game_id = 7, p_date = ''01/01/24'',
                            playable_numbers = [1, 2, 3, 4, 5], removed_count = 75\<rparr>],
            scores = [], games_csv = None, predictions_csv = None, scores_csv = None\<rparr> 8
        = (\<lparr>games = [\<lparr>game_id = 7, date = ''01/01/24'', time = ''10:00:00'',
                      numbers = [3 .. 22], unique_key = ''7_01/01/24''\<rparr>],
            predictions = [\<lparr>p_game_id = 7, p_date = ''01/01/24'',
                            playable_numbers = [1, 2, 3, 4, 5], removed_count = 75\<rparr>],
            scores = [], games_csv = None, predictions_csv = None, scores_csv = None\<rparr>, None)"
proof -
  let ?p = "\<lparr>p_game_id = 7, p_date = ''01/01/24'',
             playable_numbers = [1, 2, 3, 4, 5], removed_count = 75\<rparr>"
  let ?g = "\<lparr>game_id = 7, date = ''01/01/24'', time = ''10:00:00'',
             numbers = [3 .. 22], unique_key = ''7_01/01/24''\<rparr>"
  let ?t = "\<lparr>games = [?g], predictions = [?p], scores = [],
             games_csv = None, predictions_csv = None, scores_csv = None\<rparr>"
  have fp: "find (\<lambda>p. p_game_id p = 7) (predictions ?t) = Some ?p" by simp
  have fg: "find (\<lambda>g. game_id g = 7) (games ?t) = Some ?g" by simp
  have c: "int (card (set (playable_numbers ?p) \<inter> set (numbers ?g))) = 3"
    by code_simp
  have l: "sorted_list_of_set (set (playable_numbers ?p) \<inter> set (numbers ?g)) = [3, 4, 5]"
    by code_simp
  from score_prediction_first_match [of 7 ?t ?p ?g] fp fg
  have "\<exists>t' r. score_prediction ?t 7 = (t', Some r)
         \<and> hits r = int (card (set (playable_numbers ?p) \<inter> set (numbers ?g)))
         \<and> hit_numbers r = sorted_list_of_set (set (playable_numbers ?p) \<inter> set (numbers ?g))"
    by blast
  then have pos: "\<exists>t' r. score_prediction ?t 7 = (t', Some r) \<and> hits r = 3 \<and> hit_numbers r = [3, 4, 5]"
    unfolding c l .
  have "\<not> (\<exists>p \<in> set (predictions ?t). p_game_id p = 8)" by simp
  with score_prediction_first_match [of 8 ?t ?p ?g]
  have neg: "score_prediction ?t 8 = (?t, None)" by blast
  from fp fg pos neg show ?thesis by blast
qed

section \<open>Adding a draw the tracker already holds\<close>

text \<open>
  Claim C10. When a draw in the tracker's list has the identity key
  \<open>"{game_id}_{date}"\<close> of the draw being added, \<open>add_game\<close> returns \<open>False\<close> and the
  tracker is as it was: the same draw list and the same games file, with no row added.
\<close>

theorem add_game_duplicate:
  assumes "\<exists>g \<in> set (games t). unique_key g = make_unique_key gid d"
  shows "add_game t gid d tm nums = (t, False)"
  using assms by (simp add: add_game_def list_ex_iff)

theorem add_game_duplicate_witness:
  "(\<exists>g \<in> set (games \<lparr>games = [\<lparr>game_id = 5, date = ''01/01/24'', time = ''10:00:00'',
                                 numbers = [1 .. 20], unique_key = ''5_01/01/24''\<rparr>],
                       predictions = [], scores = [],
                       games_csv = Some [games_header, [I 5, S ''01/01/24'', S ''10:00:00''] @ map I [1 .. 20]],
                       predictions_csv = None, scores_csv = None\<rparr>).
      unique_key g = make_unique_key 5 ''01/01/24'')
   \<and> add_game \<lparr>games = [\<lparr>game_id = 5, date = ''01/01/24'', time = ''10:00:00'',
                          numbers = [1 .. 20], unique_key = ''5_01/01/24''\<rparr>],
                predictions = [], scores = [],
                games_csv = Some [games_header, [I 5, S ''01/01/24'', S ''10:00:00''] @ map I [1 .. 20]],
                predictions_csv = None, scores_csv = None\<rparr>
        5 ''01/01/24'' ''11:30:00'' [21 .. 40]
      = (\<lparr>games = [\<lparr>game_id = 5, date = ''01/01/24'', time = ''10:00:00'',
                     numbers = [1 .. 20], unique_key = ''5_01/01/24''\<rparr>],
           predictions = [], scores = [],
           games_csv = Some [games_header, [I 5, S ''01/01/24'', S ''10:00:00''] @ map I [1 .. 20]],
           predictions_csv = None, scores_csv = None\<rparr>, False)"
proof -
  have k: "make_unique_key 5 ''01/01/24'' = ''5_01/01/24''"
    by (simp add: make_unique_key_def str_int_def)
  have h: "\<exists>g \<in> set (games \<lparr>games = [\<lparr>game_id = 5, date = ''01/01/24'', time = ''10:00:00'',
                                 numbers = [1 .. 20], unique_key = ''5_01/01/24''\<rparr>],
                       predictions = [], scores = [],
                       games_csv = Some [games_header, [I 5, S ''01/01/24'', S ''10:00:00''] @ map I [1 .. 20]],
                       predictions_csv = None, scores_csv = None\<rparr>).
      unique_key g = make_unique_key 5 ''01/01/24''"
    by (simp add: k)
  show ?thesis using h add_game_duplicate [OF h] by simp
qed


section \<open>The checkpoint of the hybrid source\<close>

text \<open>
  Claim C6, as stated, at a source with an empty table: \<open>add_manual_game\<close> with twenty
  numbers from 1 to 80 appends an entry to \<open>manual_entries\<close> in the checkpoint
  dictionary and writes the checkpoint file. So \<open>check_for_updates\<close> is not the only
  operation that changes the checkpoint.
\<close>

theorem add_manual_game_counterexample:
  "add_manual_game
     \<lparr>state = \<lparr>last_game_id = Some 0, manual_entries = Some []\<rparr>,
      state_file = None, state_dir_exists = True, games_df = []\<rparr>
     7 [20, 19, 18, 17, 16, 15, 14, 13, 12, 11, 10, 9, 8, 7, 6, 5, 4, 3, 2, 1] ''2024-01-01T10:00:00''
   = (\<lparr>state = \<lparr>last_game_id = Some 0,
                 manual_entries = Some [\<lparr>me_game_id = 7,
                    me_drawn = [1, 2, 3, 4, 5, 6, 7, 8, 9, 10, 11, 12, 13, 14, 15, 16, 17, 18, 19, 20],
                    me_timestamp = ''2024-01-01T10:00:00''\<rparr>]\<rparr>,
        state_file = Some \<lparr>last_game_id = Some 0,
                 manual_entries = Some [\<lparr>me_game_id = 7,
                    me_drawn = [1, 2, 3, 4, 5, 6, 7, 8, 9, 10, 11, 12, 13, 14, 15, 16, 17, 18, 19, 20],
                    me_timestamp = ''2024-01-01T10:00:00''\<rparr>]\<rparr>,
        state_dir_exists = True, games_df = []\<rparr>, Inr True)"
  by (simp add: add_manual_game_def save_state_def)

text \<open>When the directory of the checkpoint file is missing, the write raises after
  \<open>last_game_id\<close> was advanced in memory: nothing is written and no list is returned.\<close>

lemma check_for_updates_write_fails:
  assumes "games_df src \<noteq> []"
    and "row_game_id (last (games_df src)) > (case last_game_id (state src) of None \<Rightarrow> 0 | Some i \<Rightarrow> i)"
    and "\<not> state_dir_exists src"
  shows "check_for_updates src
         = (src\<lparr>state := (state src)\<lparr>last_game_id := Some (row_game_id (last (games_df src)))\<rparr>\<rparr>,
            Inl (FileNotFoundError ''keno_data/source_state.json''))"
  using assms by (simp add: check_for_updates_def save_state_def Let_def)

lemma add_manual_game_write_fails:
  assumes "length drawn = 20" "list_all (\<lambda>n. 1 \<le> n \<and> n \<le> 80) drawn"
    and "manual_entries (state src) = Some es" "\<not> state_dir_exists src"
  shows "add_manual_game src gid drawn now
         = (src\<lparr>state := (state src)\<lparr>manual_entries :=
                    Some (es @ [\<lparr>me_game_id = gid, me_drawn = sort drawn, me_timestamp = now\<rparr>])\<rparr>\<rparr>,
            Inl (FileNotFoundError ''keno_data/source_state.json''))"
  using assms by (simp add: add_manual_game_def save_state_def Let_def)

text \<open>
  Claim C6, amended. \<open>check_for_updates\<close> is the only operation that changes
  \<open>last_game_id\<close>. When the table is not empty, the game id of its last row is strictly
  greater than the stored one (0 when absent) and the checkpoint file can be written, it
  stores that id, writes the checkpoint file and returns the games since the old id;
  when the table is empty or its last id is not greater, it returns the empty list and
  leaves the source as it was. \<open>get_latest_game\<close>, \<open>get_new_games_since\<close> and
  \<open>get_manual_game\<close> change nothing. \<open>add_manual_game\<close> never changes \<open>last_game_id\<close>;
  given twenty numbers from 1 to 80, a \<open>manual_entries\<close> list and a writable checkpoint
  file it appends the entry, with the numbers sorted, and writes the checkpoint file;
  given any other number list it returns \<open>False\<close> and changes nothing.
\<close>

theorem last_game_id_frame:
  "(games_df src \<noteq> []
      \<and> row_game_id (last (games_df src)) > (case last_game_id (state src) of None \<Rightarrow> 0 | Some i \<Rightarrow> i)
      \<and> state_dir_exists src \<longrightarrow>
      check_for_updates src =
        (src\<lparr>state := (state src)\<lparr>last_game_id := Some (row_game_id (last (games_df src)))\<rparr>,
             state_file := Some ((state src)\<lparr>last_game_id := Some (row_game_id (last (games_df src)))\<rparr>)\<rparr>,
         Inr (new_games_since (games_df src)
                (case last_game_id (state src) of None \<Rightarrow> 0 | Some i \<Rightarrow> i))))
   \<and> (\<not> (games_df src \<noteq> []
         \<and> row_game_id (last (games_df src)) > (case last_game_id (state src) of None \<Rightarrow> 0 | Some i \<Rightarrow> i)) \<longrightarrow>
        check_for_updates src = (src, Inr []))
   \<and> fst (get_latest_game src) = src
   \<and> fst (get_new_games_since src i) = src
   \<and> fst (get_manual_game src i) = src
   \<and> last_game_id (state (fst (add_manual_game src gid drawn now))) = last_game_id (state src)
   \<and> (length drawn = 20 \<and> list_all (\<lambda>n. 1 \<le> n \<and> n \<le> 80) drawn
        \<and> manual_entries (state src) = Some es \<and> state_dir_exists src \<longrightarrow>
        add_manual_game src gid drawn now =
          (src\<lparr>state := (state src)\<lparr>manual_entries :=
                   Some (es @ [\<lparr>me_game_id = gid, me_drawn = sort drawn, me_timestamp = now\<rparr>])\<rparr>,
               state_file := Some ((state src)\<lparr>manual_entries :=
                   Some (es @ [\<lparr>me_game_id = gid, me_drawn = sort drawn, me_timestamp = now\<rparr>])\<rparr>)\<rparr>,
           Inr True))
   \<and> (\<not> (length drawn = 20 \<and> list_all (\<lambda>n. 1 \<le> n \<and> n \<le> 80) drawn) \<longrightarrow>
        add_manual_game src gid drawn now = (src, Inr False))"
proof -
  have upd: "games_df src \<noteq> []
      \<and> row_game_id (last (games_df src)) > (case last_game_id (state src) of None \<Rightarrow> 0 | Some i \<Rightarrow> i)
      \<and> state_dir_exists src \<longrightarrow>
      check_for_updates src =
        (src\<lparr>state := (state src)\<lparr>last_game_id := Some (row_game_id (last (games_df src)))\<rparr>,
             state_file := Some ((state src)\<lparr>last_game_id := Some (row_game_id (last (games_df src)))\<rparr>)\<rparr>,
         Inr (new_games_since (games_df src)
                (case last_game_id (state src) of None \<Rightarrow> 0 | Some i \<Rightarrow> i)))"
    by (simp add: check_for_updates_def get_new_games_since_def save_state_def Let_def)
  have noupd: "\<not> (games_df src \<noteq> []
         \<and> row_game_id (last (games_df src)) > (case last_game_id (state src) of None \<Rightarrow> 0 | Some i \<Rightarrow> i)) \<longrightarrow>
        check_for_updates src = (src, Inr [])"
    by (auto simp: check_for_updates_def Let_def)
  have ro: "fst (get_latest_game src) = src \<and> fst (get_new_games_since src i) = src
      \<and> fst (get_manual_game src i) = src"
    by (simp add: get_latest_game_def get_new_games_since_def get_manual_game_def Let_def)
  have man: "last_game_id (state (fst (add_manual_game src gid drawn now))) = last_game_id (state src)"
    by (simp add: add_manual_game_def save_state_def Let_def split: option.splits)
  have ok: "length drawn = 20 \<and> list_all (\<lambda>n. 1 \<le> n \<and> n \<le> 80) drawn
        \<and> manual_entries (state src) = Some es \<and> state_dir_exists src \<longrightarrow>
        add_manual_game src gid drawn now =
          (src\<lparr>state := (state src)\<lparr>manual_entries :=
                   Some (es @ [\<lparr>me_game_id = gid, me_drawn = sort drawn, me_timestamp = now\<rparr>])\<rparr>,
               state_file := Some ((state src)\<lparr>manual_entries :=
                   Some (es @ [\<lparr>me_game_id = gid, me_drawn = sort drawn, me_timestamp = now\<rparr>])\<rparr>)\<rparr>,
           Inr True)"
    by (simp add: add_manual_game_def save_state_def Let_def)
  have bad: "\<not> (length drawn = 20 \<and> list_all (\<lambda>n. 1 \<le> n \<and> n \<le> 80) drawn) \<longrightarrow>
        add_manual_game src gid drawn now = (src, Inr False)"
    by (auto simp: add_manual_game_def)
  from upd noupd ro man ok bad show ?thesis by blast
qed

theorem last_game_id_frame_witness:
  "games_df \<lparr>state = \<lparr>last_game_id = Some 10, manual_entries = Some []\<rparr>, state_file = None,
             state_dir_exists = True,
             games_df = [\<lparr>row_game_id = 12, row_date = ''01/01/24'', row_time = ''10:00:00'',
                          row_number = (\<lambda>i. Some (int i)), row_datetime = ''2024-01-01T10:00:00''\<rparr>]\<rparr> \<noteq> []
   \<and> (12::int) > 10
   \<and> check_for_updates
       \<lparr>state = \<lparr>last_game_id = Some 10, manual_entries = Some []\<rparr>, state_file = None,
        state_dir_exists = True,
        games_df = [\<lparr>row_game_id = 12, row_date = ''01/01/24'', row_time = ''10:00:00'',
                     row_number = (\<lambda>i. Some (int i)), row_datetime = ''2024-01-01T10:00:00''\<rparr>]\<rparr>
     = (\<lparr>state = \<lparr>last_game_id = Some 12, manual_entries = Some []\<rparr>,
         state_file = Some \<lparr>last_game_id = Some 12, manual_entries = Some []\<rparr>,
         state_dir_exists = True,
         games_df = [\<lparr>row_game_id = 12, row_date = ''01/01/24'', row_time = ''10:00:00'',
                      row_number = (\<lambda>i. Some (int i)), row_datetime = ''2024-01-01T10:00:00''\<rparr>]\<rparr>,
        Inr [\<lparr>sg_game_id = 12,
          sg_drawn = [1, 2, 3, 4, 5, 6, 7, 8, 9, 10, 11, 12, 13, 14, 15, 16, 17, 18, 19, 20],
          sg_date = ''01/01/24'', sg_time = ''10:00:00''\<rparr>])
   \<and> check_for_updates
       \<lparr>state = \<lparr>last_game_id = Some 12, manual_entries = Some []\<rparr>, state_file = None,
        state_dir_exists = True,
        games_df = [\<lparr>row_game_id = 12, row_date = ''01/01/24'', row_time = ''10:00:00'',
                     row_number = (\<lambda>i. Some (int i)), row_datetime = ''2024-01-01T10:00:00''\<rparr>]\<rparr>
     = (\<lparr>state = \<lparr>last_game_id = Some 12, manual_entries = Some []\<rparr>, state_file = None,
         state_dir_exists = True,
         games_df = [\<lparr>row_game_id = 12, row_date = ''01/01/24'', row_time = ''10:00:00'',
                      row_number = (\<lambda>i. Some (int i)), row_datetime = ''2024-01-01T10:00:00''\<rparr>]\<rparr>, Inr [])
   \<and> add_manual_game
       \<lparr>state = \<lparr>last_game_id = Some 12, manual_entries = Some []\<rparr>, state_file = None,
        state_dir_exists = True, games_df = []\<rparr>
       13 [1, 2, 3, 4, 5, 6, 7, 8, 9, 10, 11, 12, 13, 14, 15, 16, 17, 18, 19, 81] ''2024-01-01T10:05:00''
     = (\<lparr>state = \<lparr>last_game_id = Some 12, manual_entries = Some []\<rparr>, state_file = None,
         state_dir_exists = True, games_df = []\<rparr>, Inr False)"
proof -
  let ?row = "\<lparr>row_game_id = 12, row_date = ''01/01/24'', row_time = ''10:00:00'',
               row_number = (\<lambda>i. Some (int i)), row_datetime = ''2024-01-01T10:00:00''\<rparr>"
  have d: "row_drawn ?row = [1, 2, 3, 4, 5, 6, 7, 8, 9, 10, 11, 12, 13, 14, 15, 16, 17, 18, 19, 20]"
    by code_simp
  have n: "new_games_since [?row] 10
      = [\<lparr>sg_game_id = 12,
          sg_drawn = [1, 2, 3, 4, 5, 6, 7, 8, 9, 10, 11, 12, 13, 14, 15, 16, 17, 18, 19, 20],
          sg_date = ''01/01/24'', sg_time = ''10:00:00''\<rparr>]"
    by (simp add: new_games_since_def d)
  show ?thesis
    using last_game_id_frame
        [of "\<lparr>state = \<lparr>last_game_id = Some 10, manual_entries = Some []\<rparr>, state_file = None,
              state_dir_exists = True, games_df = [?row]\<rparr>"]
      last_game_id_frame
        [of "\<lparr>state = \<lparr>last_game_id = Some 12, manual_entries = Some []\<rparr>, state_file = None,
              state_dir_exists = True, games_df = [?row]\<rparr>"]
      last_game_id_frame
        [of "\<lparr>state = \<lparr>last_game_id = Some 12, manual_entries = Some []\<rparr>, state_file = None,
              state_dir_exists = True, games_df = []\<rparr>" _ _
            "[1, 2, 3, 4, 5, 6, 7, 8, 9, 10, 11, 12, 13, 14, 15, 16, 17, 18, 19, 81]"]
    by (simp add: n)
qed

section \<open>Sending a message\<close>

text \<open>
  Claim C8. \<open>send_telegram_message\<close> returns \<open>True\<close> exactly when the request returns a
  response whose body is a JSON object with a truthy \<open>ok\<close> field; then it prints
  nothing. In every other case (the request raises, the body is not JSON, the body is
  not an object, \<open>ok\<close> is absent or falsy) it returns \<open>False\<close> after one line on the
  console. The function is total: each way the request can fail is a value it returns
  from, none is passed on to the caller.
\<close>

theorem send_telegram_message_result:
  "(snd (send_telegram_message post console message chat_id) \<longleftrightarrow>
      (\<exists>kvs v. post telegram_url
                  (JObj [(''chat_id'', JStr (case chat_id of None \<Rightarrow> TELEGRAM_CHAT_ID | Some c \<Rightarrow> c)),
                         (''text'', JStr message)])
                = Responded (Inr (JObj kvs))
              \<and> map_of kvs ''ok'' = Some v \<and> truthy v))
   \<and> (snd (send_telegram_message post console message chat_id) \<longrightarrow>
        fst (send_telegram_message post console message chat_id) = console)
   \<and> (\<not> snd (send_telegram_message post console message chat_id) \<longrightarrow>
        (\<exists>line. fst (send_telegram_message post console message chat_id) = console @ [line]))"
  by (auto simp: send_telegram_message_def json_get_def Let_def
           split: http_result.splits sum.splits json.splits option.splits)

theorem send_telegram_message_result_witness:
  "send_telegram_message (\<lambda>url payload. Responded (Inr (JObj [(''ok'', JBool True)]))) [] ''hello'' None
     = ([], True)
   \<and> send_telegram_message (\<lambda>url payload. Raised ''connection refused'') [] ''hello'' None
     = ([Telegram_send_error ''connection refused''], False)
   \<and> send_telegram_message
       (\<lambda>url payload. Responded (Inr (JObj [(''ok'', JBool False), (''description'', JStr ''Unauthorized'')])))
       [] ''hello'' (Some ''42'')
     = ([Telegram_error (JStr ''Unauthorized'')], False)"
proof -
  have a: "send_telegram_message (\<lambda>url payload. Responded (Inr (JObj [(''ok'', JBool True)]))) [] ''hello'' None
     = ([], True)"
    using send_telegram_message_result
      [of "\<lambda>url payload. Responded (Inr (JObj [(''ok'', JBool True)]))" "[]" "''hello''" None]
    by (simp add: prod_eq_iff)
  have b: "send_telegram_message (\<lambda>url payload. Raised ''connection refused'') [] ''hello'' None
     = ([Telegram_send_error ''connection refused''], False)"
    by (simp add: send_telegram_message_def)
  have c: "send_telegram_message
       (\<lambda>url payload. Responded (Inr (JObj [(''ok'', JBool False), (''description'', JStr ''Unauthorized'')])))
       [] ''hello'' (Some ''42'')
     = ([Telegram_error (JStr ''Unauthorized'')], False)"
    by (simp add: send_telegram_message_def json_get_def)
  from a b c show ?thesis by simp
qed


section \<open>The deep backfill\<close>












end
